theory Spec2Isabelle
  imports Main "HOL-Library.AList" "HOL-Library.Sublist"
begin

text \<open>
  A model of the class \<^verbatim>\<open>PowerBIExporter\<close> of \<^verbatim>\<open>BiExporter.py\<close>: the export of one report
  (\<^verbatim>\<open>export_power_bi_report\<close>) with the three requests it is built from
  (\<^verbatim>\<open>post_export_request\<close>, \<^verbatim>\<open>poll_export_request\<close>, \<^verbatim>\<open>get_exported_file\<close>). Each coroutine is a
  function from the world before the call to its result and the world after it; an
  exception is a result \<open>Inl e\<close>. The listing of reports and the script's \<^verbatim>\<open>main\<close> are
  not part of it.
\<close>

section \<open>Python values\<close>

text \<open>
  The exporter handles the objects that \<^verbatim>\<open>response.json()\<close> produces and the arguments
  it is called with: \<^verbatim>\<open>None\<close>, booleans, integers, strings, lists and dictionaries. A
  dictionary is an association list read with \<open>map_of\<close>. Numbers with a fraction are
  left out (time is counted in whole seconds), and a character is one of the 256 code
  points below U+0100.
\<close>

datatype json =
    JNull
  | JBool bool
  | JInt int
  | JStr string
  | JArr "json list"
  | JObj "(string \<times> json) list"

datatype error =
    ClientConnectionError
  | ServerTimeoutError
  | ClientResponseError nat
  | ContentTypeError
  | KeyError string
  | TypeError

text \<open>\<^verbatim>\<open>obj[key]\<close> with a string key: only a dictionary can be subscripted by a string.\<close>

fun getitem :: "json \<Rightarrow> string \<Rightarrow> error + json" where
  "getitem (JObj kvs) k = (case map_of kvs k of None \<Rightarrow> Inl (KeyError k) | Some v \<Rightarrow> Inr v)"
| "getitem _ k = Inl TypeError"

text \<open>\<^verbatim>\<open>key in obj\<close> with a string key: membership in a dictionary's keys, in a list's
  elements, substring of a string; \<^verbatim>\<open>None\<close>, booleans and integers are not iterable.\<close>

fun contains :: "string \<Rightarrow> json \<Rightarrow> error + bool" where
  "contains k (JObj kvs) = Inr (map_of kvs k \<noteq> None)"
| "contains k (JArr xs) = Inr (JStr k \<in> set xs)"
| "contains k (JStr s) = Inr (sublist k s)"
| "contains k _ = Inl TypeError"

text \<open>The truth value that \<^verbatim>\<open>if obj:\<close> tests.\<close>

fun truthy :: "json \<Rightarrow> bool" where
  "truthy JNull = False"
| "truthy (JBool b) = b"
| "truthy (JInt n) = (n \<noteq> 0)"
| "truthy (JStr s) = (s \<noteq> [])"
| "truthy (JArr xs) = (xs \<noteq> [])"
| "truthy (JObj kvs) = (kvs \<noteq> [])"

subsection \<open>\<^verbatim>\<open>str()\<close>, as an f-string applies it\<close>

fun nat_str :: "nat \<Rightarrow> string" where
  "nat_str n = (if n < 10 then [char_of (48 + n)] else nat_str (n div 10) @ [char_of (48 + n mod 10)])"

declare nat_str.simps [simp del]

definition int_str :: "int \<Rightarrow> string" where
  "int_str i = (if i < 0 then CHR ''-'' # nat_str (nat (- i)) else nat_str (nat i))"

definition hex_digit :: "nat \<Rightarrow> char" where
  "hex_digit n = (if n < 10 then char_of (48 + n) else char_of (87 + n))"

text \<open>\<^verbatim>\<open>repr\<close> of a string: in single quotes, unless it holds a single quote and no
  double quote; the quote and the backslash escaped, control and other unprintable
  characters as escapes.\<close>

definition repr_char :: "char \<Rightarrow> char \<Rightarrow> string" where
  "repr_char q c =
     (let n = (of_char c :: nat) in
      if c = q \<or> c = CHR 0x5C then [CHR 0x5C, c]
      else if c = CHR 0x09 then [CHR 0x5C, CHR ''t'']
      else if c = CHR 0x0A then [CHR 0x5C, CHR ''n'']
      else if c = CHR 0x0D then [CHR 0x5C, CHR ''r'']
      else if n < 32 \<or> (127 \<le> n \<and> n \<le> 160) \<or> n = 173
        then [CHR 0x5C, CHR ''x'', hex_digit (n div 16), hex_digit (n mod 16)]
      else [c])"

definition str_repr :: "string \<Rightarrow> string" where
  "str_repr s =
     (let q = (if CHR 0x27 \<in> set s \<and> CHR 0x22 \<notin> set s then CHR 0x22 else CHR 0x27)
      in q # concat (map (repr_char q) s) @ [q])"

fun join :: "string \<Rightarrow> string list \<Rightarrow> string" where
  "join sep [] = []"
| "join sep [x] = x"
| "join sep (x # y # ys) = x @ sep @ join sep (y # ys)"

fun py_repr :: "json \<Rightarrow> string" where
  "py_repr JNull = ''None''"
| "py_repr (JBool b) = (if b then ''True'' else ''False'')"
| "py_repr (JInt i) = int_str i"
| "py_repr (JStr s) = str_repr s"
| "py_repr (JArr xs) = ''['' @ join '', '' (map py_repr xs) @ '']''"
| "py_repr (JObj kvs) =
     ''{'' @ join '', '' (map (\<lambda>(k, v). str_repr k @ '': '' @ py_repr v) kvs) @ ''}''"

fun py_str :: "json \<Rightarrow> string" where
  "py_str (JStr s) = s"
| "py_str v = py_repr v"

section \<open>The world outside: clock, network, console\<close>

text \<open>
  A request carries its URL, its headers and, for a POST, the JSON body. The network
  answers a request with a response or with a fault of the client library, after some
  time. A response is read three ways by the exporter: its status code, its bytes
  (\<^verbatim>\<open>response.read()\<close>) and its body as JSON (\<^verbatim>\<open>response.json()\<close>, \<open>None\<close> when the body
  is not JSON).
\<close>

datatype request =
    Get string "(string \<times> string) list"
  | Post string "(string \<times> string) list" json

record response =
  status :: nat
  body :: string
  json_body :: "json option"

datatype answer = Responds response | ConnectionFault | TimeoutFault

record reply =
  latency :: nat
  answer :: answer

datatype event =
    Print string
  | PrintError nat error
  | Http request
  | Sleep int

text \<open>
  \<open>now\<close> is what \<^verbatim>\<open>time.time()\<close> returns, in seconds. \<open>net\<close> decides the reply to the
  \<open>n\<close>-th awaited operation when it is a request, \<open>lag\<close> by how much the \<open>n\<close>-th awaited
  operation oversleeps when it is a sleep. \<open>trace\<close> lists what was done, oldest
  first, each with the time at which it began.
\<close>

record world =
  now :: int
  steps :: nat
  net :: "nat \<Rightarrow> request \<Rightarrow> reply"
  lag :: "nat \<Rightarrow> nat"
  trace :: "(int \<times> event) list"

definition emit :: "event \<Rightarrow> world \<Rightarrow> world" where
  "emit ev w = w\<lparr>trace := trace w @ [(now w, ev)]\<rparr>"

text \<open>\<^verbatim>\<open>async with session.get(url, headers=...) as response\<close> and its POST twin.\<close>

definition http :: "request \<Rightarrow> world \<Rightarrow> (error + response) \<times> world" where
  "http req w =
     (let r = net w (steps w) req;
          w' = (emit (Http req) w)\<lparr>now := now w + int (latency r), steps := Suc (steps w)\<rparr>
      in case answer r of
           Responds resp \<Rightarrow> (Inr resp, w')
         | ConnectionFault \<Rightarrow> (Inl ClientConnectionError, w')
         | TimeoutFault \<Rightarrow> (Inl ServerTimeoutError, w'))"

text \<open>\<^verbatim>\<open>response.raise_for_status()\<close> of aiohttp raises for a status of 400 or more.\<close>

definition raise_for_status :: "response \<Rightarrow> error + unit" where
  "raise_for_status resp =
     (if 400 \<le> status resp then Inl (ClientResponseError (status resp)) else Inr ())"

definition response_json :: "response \<Rightarrow> error + json" where
  "response_json resp = (case json_body resp of None \<Rightarrow> Inl ContentTypeError | Some j \<Rightarrow> Inr j)"

text \<open>Suspending for \<open>d\<close> seconds: a delay of zero or less yields at once; the wake-up may
  be late, never early.\<close>

definition pause :: "int \<Rightarrow> world \<Rightarrow> world" where
  "pause d w =
     (emit (Sleep d) w)\<lparr>now := now w + max 0 d + int (lag w (steps w)), steps := Suc (steps w)\<rparr>"

text \<open>\<^verbatim>\<open>await asyncio.sleep(delay)\<close> compares \<^verbatim>\<open>delay <= 0\<close> first, which raises for
  anything but a number (a boolean counts as 0 or 1).\<close>

fun asyncio_sleep :: "json \<Rightarrow> world \<Rightarrow> (error + unit) \<times> world" where
  "asyncio_sleep (JInt d) w = (Inr (), pause d w)"
| "asyncio_sleep (JBool b) w = (Inr (), pause (if b then 1 else 0) w)"
| "asyncio_sleep _ w = (Inl TypeError, w)"

section \<open>The exporter\<close>

datatype FileFormat = PDF | PNG

fun FileFormat_value :: "FileFormat \<Rightarrow> string" where
  "FileFormat_value PDF = ''PDF''"
| "FileFormat_value PNG = ''PNG''"

datatype ExportState = SUCCEEDED | FAILED

fun ExportState_value :: "ExportState \<Rightarrow> string" where
  "ExportState_value SUCCEEDED = ''Succeeded''"
| "ExportState_value FAILED = ''Failed''"

record PowerBIExporter =
  access_token :: string
  base_url :: string
  headers :: "(string \<times> string) list"

text \<open>\<^verbatim>\<open>PowerBIExporter.__init__\<close>\<close>

definition init :: "string \<Rightarrow> string \<Rightarrow> PowerBIExporter" where
  "init token url =
     \<lparr>access_token = token, base_url = url,
      headers = [(''Authorization'', ''Bearer '' @ token), (''Content-Type'', ''application/json'')]\<rparr>"

definition default_base_url :: string where
  "default_base_url = ''https://api.powerbi.com/v1.0/myorg''"

text \<open>The dictionary \<^verbatim>\<open>{'content': ..., 'filename': ...}\<close> that a successful export returns.\<close>

record exported_file =
  content :: string
  filename :: string

subsection \<open>\<^verbatim>\<open>post_export_request\<close>\<close>

text \<open>The two f-strings that name the service's endpoints.\<close>

definition ExportTo_url :: "PowerBIExporter \<Rightarrow> string \<Rightarrow> string \<Rightarrow> string" where
  "ExportTo_url self group_id report_id =
     base_url self @ ''/groups/'' @ group_id @ ''/reports/'' @ report_id @ ''/ExportTo''"

definition exports_url :: "PowerBIExporter \<Rightarrow> string \<Rightarrow> string \<Rightarrow> json \<Rightarrow> string" where
  "exports_url self group_id report_id export_id =
     base_url self @ ''/groups/'' @ group_id @ ''/reports/'' @ report_id
       @ ''/exports/'' @ py_str export_id"

definition post_export_request ::
  "PowerBIExporter \<Rightarrow> string \<Rightarrow> string \<Rightarrow> FileFormat \<Rightarrow> json \<Rightarrow> json \<Rightarrow> world
     \<Rightarrow> (error + json) \<times> world" where
  "post_export_request self report_id group_id file_format page_names url_filter w =
     (let url = ExportTo_url self group_id report_id;
          data = [(''format'', JStr (FileFormat_value file_format))];
          w0 = emit (Print url) w;
          data = (if truthy page_names then AList.update ''pageNames'' page_names data else data);
          data = (if truthy url_filter then AList.update ''urlFilter'' url_filter data else data)
      in case http (Post url (headers self) (JObj data)) w0 of
           (Inl e, w1) \<Rightarrow> (Inl e, w1)
         | (Inr resp, w1) \<Rightarrow>
             (case raise_for_status resp of
                Inl e \<Rightarrow> (Inl e, w1)
              | Inr _ \<Rightarrow>
                  (case response_json resp of
                     Inl e \<Rightarrow> (Inl e, w1)
                   | Inr result \<Rightarrow> (getitem result ''id'', w1))))"

subsection \<open>\<^verbatim>\<open>poll_export_request\<close>\<close>

text \<open>The \<^verbatim>\<open>while\<close> loop, from its test on: \<open>start_time\<close> is the clock read on entry.\<close>

function poll_while ::
  "PowerBIExporter \<Rightarrow> string \<Rightarrow> int \<Rightarrow> int \<Rightarrow> world \<Rightarrow> (error + json) \<times> world" where
  "poll_while self url start_time polling_timeout_minutes w =
     (if now w - start_time < polling_timeout_minutes * 60 then
        (case http (Get url (headers self)) w of
           (Inl e, w1) \<Rightarrow> (Inl e, w1)
         | (Inr resp, w1) \<Rightarrow>
             (case raise_for_status resp of
                Inl e \<Rightarrow> (Inl e, w1)
              | Inr _ \<Rightarrow>
                  (case response_json resp of
                     Inl e \<Rightarrow> (Inl e, w1)
                   | Inr result \<Rightarrow>
                       (case getitem result ''status'' of
                          Inl e \<Rightarrow> (Inl e, w1)
                        | Inr st \<Rightarrow>
                            if st \<in> set [JStr (ExportState_value SUCCEEDED),
                                           JStr (ExportState_value FAILED)]
                            then (Inr result, w1)
                            else poll_while self url start_time polling_timeout_minutes
                                   (pause 5 w1)))))
      else (Inr JNull, w))"
  by pat_completeness auto

termination poll_while
proof (relation "measure (\<lambda>(self, url, start, tmo, w). nat (start + tmo * 60 - now w))", goal_cases)
  case 1
  show ?case by simp
next
  case (2 self url start tmo w x1 w1 resp u result st)
  from 2(2) have "now w \<le> now w1"
    by (auto simp: http_def emit_def Let_def split: answer.splits)
  moreover have "now w1 + 5 \<le> now (pause 5 w1)"
    by (simp add: pause_def emit_def)
  ultimately show ?case using 2(1) by simp
qed

declare poll_while.simps [simp del]

definition poll_export_request ::
  "PowerBIExporter \<Rightarrow> string \<Rightarrow> string \<Rightarrow> json \<Rightarrow> int \<Rightarrow> world \<Rightarrow> (error + json) \<times> world" where
  "poll_export_request self report_id group_id export_id polling_timeout_minutes w =
     (let url = exports_url self group_id report_id export_id;
          start_time = now w
      in poll_while self url start_time polling_timeout_minutes w)"

subsection \<open>\<^verbatim>\<open>get_exported_file\<close>\<close>

text \<open>The client library accepts only a string as a URL and raises before any traffic
  otherwise.\<close>

definition get_exported_file ::
  "PowerBIExporter \<Rightarrow> string \<Rightarrow> string \<Rightarrow> json \<Rightarrow> world \<Rightarrow> (error + exported_file) \<times> world" where
  "get_exported_file self report_id group_id export w =
     (case getitem export ''resourceLocation'' of
        Inl e \<Rightarrow> (Inl e, w)
      | Inr (JStr url) \<Rightarrow>
          (case http (Get url (headers self)) w of
             (Inl e, w1) \<Rightarrow> (Inl e, w1)
           | (Inr resp, w1) \<Rightarrow>
               (case raise_for_status resp of
                  Inl e \<Rightarrow> (Inl e, w1)
                | Inr _ \<Rightarrow>
                    (case getitem export ''reportName'' of
                       Inl e \<Rightarrow> (Inl e, w1)
                     | Inr name \<Rightarrow>
                         (case getitem export ''resourceFileExtension'' of
                            Inl e \<Rightarrow> (Inl e, w1)
                          | Inr ext \<Rightarrow>
                              (Inr \<lparr>content = body resp,
                                    filename = py_str name @ ''.'' @ py_str ext\<rparr>, w1)))))
      | Inr _ \<Rightarrow> (Inl TypeError, w))"

subsection \<open>\<^verbatim>\<open>export_power_bi_report\<close>\<close>

text \<open>How the body of the \<^verbatim>\<open>try\<close> leaves: by \<^verbatim>\<open>return\<close>, by reaching \<^verbatim>\<open>continue\<close> or its
  own end (both go on to the next round of the \<^verbatim>\<open>for\<close>), or by an exception.\<close>

datatype 'a flow = Return 'a | Next | Raise error

definition max_retries :: nat where
  "max_retries = 3"

definition try_body ::
  "PowerBIExporter \<Rightarrow> string \<Rightarrow> string \<Rightarrow> FileFormat \<Rightarrow> int \<Rightarrow> json \<Rightarrow> json \<Rightarrow> world
     \<Rightarrow> exported_file option flow \<times> world" where
  "try_body self report_id group_id file_format polling_timeout_minutes page_names url_filter w =
     (case post_export_request self report_id group_id file_format page_names url_filter w of
        (Inl e, w1) \<Rightarrow> (Raise e, w1)
      | (Inr export_id, w1) \<Rightarrow>
          (case poll_export_request self report_id group_id export_id polling_timeout_minutes w1 of
             (Inl e, w2) \<Rightarrow> (Raise e, w2)
           | (Inr export, w2) \<Rightarrow>
               (case (if export = JNull then Inr True
                      else (case getitem export ''status'' of
                              Inl e \<Rightarrow> Inl e
                            | Inr st \<Rightarrow> Inr (st = JStr (ExportState_value FAILED)))) of
                  Inl e \<Rightarrow> (Raise e, w2)
                | Inr True \<Rightarrow>
                    (case contains ''retryAfter'' export of
                       Inl e \<Rightarrow> (Raise e, w2)
                     | Inr True \<Rightarrow>
                         (case getitem export ''retryAfter'' of
                            Inl e \<Rightarrow> (Raise e, w2)
                          | Inr delay \<Rightarrow>
                              (case asyncio_sleep delay w2 of
                                 (Inl e, w3) \<Rightarrow> (Raise e, w3)
                               | (Inr _, w3) \<Rightarrow> (Next, w3)))
                     | Inr False \<Rightarrow> (Return None, w2))
                | Inr False \<Rightarrow>
                    (case getitem export ''status'' of
                       Inl e \<Rightarrow> (Raise e, w2)
                     | Inr st \<Rightarrow>
                         if st = JStr (ExportState_value SUCCEEDED) then
                           (case get_exported_file self report_id group_id export w2 of
                              (Inl e, w3) \<Rightarrow> (Raise e, w3)
                            | (Inr file, w3) \<Rightarrow> (Return (Some file), w3))
                         else (Next, w2)))))"

text \<open>One round of the \<^verbatim>\<open>for\<close> loop: the \<^verbatim>\<open>try\<close> with its \<^verbatim>\<open>except Exception\<close> clause,
  which prints the error and raises it again in the last round only.\<close>

definition attempt_round ::
  "PowerBIExporter \<Rightarrow> string \<Rightarrow> string \<Rightarrow> FileFormat \<Rightarrow> int \<Rightarrow> json \<Rightarrow> json \<Rightarrow> nat \<Rightarrow> world
     \<Rightarrow> exported_file option flow \<times> world" where
  "attempt_round self report_id group_id file_format polling_timeout_minutes page_names url_filter
      attempt w =
     (case try_body self report_id group_id file_format polling_timeout_minutes page_names
             url_filter w of
        (Raise e, w1) \<Rightarrow>
          (let w2 = emit (PrintError (attempt + 1) e) w1
           in if attempt = max_retries - 1 then (Raise e, w2) else (Next, w2))
      | (Return r, w1) \<Rightarrow> (Return r, w1)
      | (Next, w1) \<Rightarrow> (Next, w1))"

text \<open>The \<^verbatim>\<open>for attempt in range(max_retries)\<close> loop from round \<open>attempt\<close> on, and the
  \<^verbatim>\<open>return None\<close> after it.\<close>

function for_attempt ::
  "PowerBIExporter \<Rightarrow> string \<Rightarrow> string \<Rightarrow> FileFormat \<Rightarrow> int \<Rightarrow> json \<Rightarrow> json \<Rightarrow> nat \<Rightarrow> world
     \<Rightarrow> (error + exported_file option) \<times> world" where
  "for_attempt self report_id group_id file_format polling_timeout_minutes page_names url_filter
      attempt w =
     (if attempt < max_retries then
        (case attempt_round self report_id group_id file_format polling_timeout_minutes page_names
                url_filter attempt w of
           (Return r, w1) \<Rightarrow> (Inr r, w1)
         | (Raise e, w1) \<Rightarrow> (Inl e, w1)
         | (Next, w1) \<Rightarrow>
             for_attempt self report_id group_id file_format polling_timeout_minutes page_names
               url_filter (Suc attempt) w1)
      else (Inr None, w))"
  by pat_completeness auto

termination for_attempt
  by (relation "measure (\<lambda>(self, r, g, f, t, p, u, attempt, w). max_retries - attempt)") auto

declare for_attempt.simps [simp del]

definition export_power_bi_report ::
  "PowerBIExporter \<Rightarrow> string \<Rightarrow> string \<Rightarrow> FileFormat \<Rightarrow> int \<Rightarrow> json \<Rightarrow> json \<Rightarrow> world
     \<Rightarrow> (error + exported_file option) \<times> world" where
  "export_power_bi_report self report_id group_id file_format polling_timeout_minutes page_names
      url_filter w =
     for_attempt self report_id group_id file_format polling_timeout_minutes page_names url_filter
       0 w"

subsection \<open>Reading a trace\<close>

fun is_submission :: "event \<Rightarrow> bool" where
  "is_submission (Http (Post url hs b)) = True"
| "is_submission _ = False"

fun is_fetch :: "event \<Rightarrow> bool" where
  "is_fetch (Http (Get url hs)) = True"
| "is_fetch _ = False"

definition count_submissions :: "(int \<times> event) list \<Rightarrow> nat" where
  "count_submissions evs = length (filter is_submission (map snd evs))"

definition submissions :: "world \<Rightarrow> nat" where
  "submissions w = count_submissions (trace w)"

text \<open>\<open>quiet w w'\<close>: the world \<open>w'\<close> continues the trace of \<open>w\<close> with no further submission.\<close>

definition quiet :: "world \<Rightarrow> world \<Rightarrow> bool" where
  "quiet w w' \<longleftrightarrow>
     prefix (trace w) (trace w') \<and> count_submissions (drop (length (trace w)) (trace w')) = 0"

text \<open>
  The shape of what one polling loop does: status fetches (the request \<open>g\<close>), each begun
  while less than the timeout has passed since \<open>start_time\<close>, and after each fetch but
  the last a sleep of 5 seconds that the next fetch waits out.
\<close>

fun poll_trace :: "request \<Rightarrow> int \<Rightarrow> int \<Rightarrow> (int \<times> event) list \<Rightarrow> bool" where
  "poll_trace g start_time polling_timeout_minutes [] = True"
| "poll_trace g start_time polling_timeout_minutes [(t, ev)] =
     (ev = Http g \<and> t - start_time < polling_timeout_minutes * 60)"
| "poll_trace g start_time polling_timeout_minutes ((t, ev) # (t', ev') # rest) =
     (ev = Http g \<and> t - start_time < polling_timeout_minutes * 60 \<and>
      ev' = Sleep 5 \<and> t \<le> t' \<and>
      (case rest of [] \<Rightarrow> True | (t'', ev'') # later \<Rightarrow> t' + 5 \<le> t'') \<and>
      poll_trace g start_time polling_timeout_minutes rest)"

subsection \<open>Worlds to run the exporter in\<close>

definition demo_exporter :: PowerBIExporter where
  "demo_exporter = init ''token'' default_base_url"

definition start_world :: "(nat \<Rightarrow> request \<Rightarrow> reply) \<Rightarrow> world" where
  "start_world n = \<lparr>now = 0, steps = 0, net = n, lag = (\<lambda>k. 0), trace = []\<rparr>"

definition ok_json :: "nat \<Rightarrow> json \<Rightarrow> reply" where
  "ok_json t j = \<lparr>latency = t, answer = Responds \<lparr>status = 200, body = [], json_body = Some j\<rparr>\<rparr>"

text \<open>The scenario of the specification: submission gives the handle E1, the first status
  is not terminal, the second is Succeeded and names the file, whose bytes are behind
  the resource location.\<close>

definition running_response :: response where
  "running_response = \<lparr>status = 200, body = [], json_body = Some (JObj [(''status'', JStr ''Running'')])\<rparr>"

definition sales_snapshot :: json where
  "sales_snapshot =
     JObj [(''status'', JStr ''Succeeded''), (''resourceLocation'', JStr ''https://files.example/L''),
           (''reportName'', JStr ''Sales''), (''resourceFileExtension'', JStr ''png'')]"

definition sales_file :: response where
  "sales_file = \<lparr>status = 200, body = ''PNG-bytes'', json_body = None\<rparr>"

definition sales_net :: "nat \<Rightarrow> request \<Rightarrow> reply" where
  "sales_net n req =
     (case req of
        Post url hs b \<Rightarrow> ok_json 1 (JObj [(''id'', JStr ''E1'')])
      | Get url hs \<Rightarrow>
          if url = ''https://files.example/L'' then \<lparr>latency = 2, answer = Responds sales_file\<rparr>
          else if n < 3 then \<lparr>latency = 1, answer = Responds running_response\<rparr>
          else ok_json 1 sales_snapshot)"

text \<open>A service that answers every request with the given status and a body that holds a
  handle.\<close>

definition status_net :: "nat \<Rightarrow> nat \<Rightarrow> request \<Rightarrow> reply" where
  "status_net code n req =
     \<lparr>latency = 1,
      answer = Responds \<lparr>status = code, body = [], json_body = Some (JObj [(''id'', JStr ''E1'')])\<rparr>\<rparr>"

text \<open>A service whose exports fail with no retry-after.\<close>

definition failing_net :: "nat \<Rightarrow> request \<Rightarrow> reply" where
  "failing_net n req =
     (case req of
        Post url hs b \<Rightarrow> ok_json 1 (JObj [(''id'', JStr ''E1'')])
      | Get url hs \<Rightarrow> ok_json 1 (JObj [(''status'', JStr ''Failed'')]))"

text \<open>A service whose exports fail and ask for a retry after 30 seconds.\<close>

definition retry_snapshot :: json where
  "retry_snapshot = JObj [(''status'', JStr ''Failed''), (''retryAfter'', JInt 30)]"

definition retry_net :: "nat \<Rightarrow> request \<Rightarrow> reply" where
  "retry_net n req =
     (case req of
        Post url hs b \<Rightarrow> ok_json 1 (JObj [(''id'', JStr ''E1'')])
      | Get url hs \<Rightarrow> ok_json 1 retry_snapshot)"

text \<open>A service whose exports never leave \<^verbatim>\<open>Running\<close>, and which answers a status fetch
  after a minute.\<close>

definition stuck_net :: "nat \<Rightarrow> request \<Rightarrow> reply" where
  "stuck_net n req =
     (case req of
        Post url hs b \<Rightarrow> ok_json 1 (JObj [(''id'', JStr ''E1'')])
      | Get url hs \<Rightarrow> ok_json 60 (JObj [(''status'', JStr ''Running'')]))"

text \<open>A network whose first request fails to connect and which then behaves as
  \<open>sales_net\<close>, and one on which no request ever connects.\<close>

definition flaky_net :: "nat \<Rightarrow> request \<Rightarrow> reply" where
  "flaky_net n req = (if n = 0 then \<lparr>latency = 1, answer = ConnectionFault\<rparr> else sales_net n req)"

definition dead_net :: "nat \<Rightarrow> request \<Rightarrow> reply" where
  "dead_net n req = \<lparr>latency = 1, answer = ConnectionFault\<rparr>"

section \<open>Properties\<close>

subsection \<open>Clock and trace\<close>

lemma emit_fields [simp]:
  "now (emit ev w) = now w" "steps (emit ev w) = steps w" "net (emit ev w) = net w"
  "lag (emit ev w) = lag w" "trace (emit ev w) = trace w @ [(now w, ev)]"
  by (simp_all add: emit_def)

lemma pause_fields [simp]:
  "trace (pause d w) = trace w @ [(now w, Sleep d)]"
  "now (pause d w) = now w + max 0 d + int (lag w (steps w))"
  by (simp_all add: pause_def)

lemma http_trace: "http req w = (r, w1) \<Longrightarrow> trace w1 = trace w @ [(now w, Http req)]"
  by (auto simp: http_def Let_def split: answer.splits)

lemma http_now: "http req w = (r, w1) \<Longrightarrow> now w \<le> now w1"
  by (auto simp: http_def Let_def split: answer.splits)

lemma count_submissions_append [simp]:
  "count_submissions (xs @ ys) = count_submissions xs + count_submissions ys"
  by (simp add: count_submissions_def)

lemma count_submissions_simps [simp]:
  "count_submissions [] = 0"
  "count_submissions ((t, ev) # evs) = (if is_submission ev then 1 else 0) + count_submissions evs"
  by (simp_all add: count_submissions_def)

subsection \<open>The polling loop\<close>

lemma poll_trace_no_submission:
  "poll_trace (Get url hs) start tmo evs \<Longrightarrow> count_submissions evs = 0"
  by (induction "Get url hs" start tmo evs rule: poll_trace.induct) auto

lemma poll_while_trace:
  "poll_while self url start tmo w = (r, w') \<Longrightarrow>
     \<exists>evs. trace w' = trace w @ evs \<and> poll_trace (Get url (headers self)) start tmo evs \<and>
           (case evs of [] \<Rightarrow> True | (t, ev) # later \<Rightarrow> t = now w)"
proof (induction self url start tmo w rule: poll_while.induct)
  case (1 self url start tmo w)
  let ?g = "Get url (headers self)"
  show ?case
  proof (cases "now w - start < tmo * 60")
    case False
    with "1.prems" have "w' = w" by (simp add: poll_while.simps [of self url start tmo w])
    then show ?thesis by simp
  next
    case True
    obtain x w1 where h: "http ?g w = (x, w1)" by force
    have tr: "trace w1 = trace w @ [(now w, Http ?g)]"
      using h by (rule http_trace)
    show ?thesis
    proof (cases "w' = w1")
      case same: True
      have "poll_trace ?g start tmo [(now w, Http ?g)]" using True by simp
      with tr same show ?thesis by force
    next
      case False
      with "1.prems" True h obtain resp u result st where
        a: "x = Inr resp" "raise_for_status resp = Inr u" "response_json resp = Inr result"
           "getitem result ''status'' = Inr st"
           "st \<notin> set [JStr (ExportState_value SUCCEEDED), JStr (ExportState_value FAILED)]"
        and rec: "poll_while self url start tmo (pause 5 w1) = (r, w')"
        by (auto simp: poll_while.simps [of self url start tmo w] split: sum.splits if_splits)
      from "1.IH" [OF True h [symmetric] a(1) a(2) a(3) a(4) a(5) rec]
      obtain evs where e: "trace w' = trace (pause 5 w1) @ evs" "poll_trace ?g start tmo evs"
          "case evs of [] \<Rightarrow> True | (t, ev) # later \<Rightarrow> t = now (pause 5 w1)"
        by blast
      have le: "now w \<le> now w1" using h by (rule http_now)
      have "trace w' = trace w @ ((now w, Http ?g) # (now w1, Sleep 5) # evs)"
        using e(1) tr by simp
      moreover have "poll_trace ?g start tmo ((now w, Http ?g) # (now w1, Sleep 5) # evs)"
        using e(2) e(3) True le by (auto split: list.splits)
      ultimately show ?thesis by force
    qed
  qed
qed

lemma poll_while_terminal:
  "poll_while self url start tmo w = (Inr export, w') \<Longrightarrow>
     export = JNull \<or>
     getitem export ''status'' = Inr (JStr ''Succeeded'') \<or>
     getitem export ''status'' = Inr (JStr ''Failed'')"
proof (induction self url start tmo w rule: poll_while.induct)
  case (1 self url start tmo w)
  show ?case
  proof (cases "now w - start < tmo * 60")
    case False
    with "1.prems" show ?thesis by (simp add: poll_while.simps [of self url start tmo w])
  next
    case True
    obtain x w1 where h: "http (Get url (headers self)) w = (x, w1)" by force
    show ?thesis
    proof (cases "poll_while self url start tmo (pause 5 w1) = (Inr export, w')")
      case rec: True
      with "1.prems" True h show ?thesis
        using "1.IH" [OF True h [symmetric] _ _ _ _ _ rec]
        by (auto simp: poll_while.simps [of self url start tmo w] split: sum.splits if_splits)
    next
      case False
      with "1.prems" True h show ?thesis
        by (auto simp: poll_while.simps [of self url start tmo w] split: sum.splits if_splits)
    qed
  qed
qed

subsection \<open>Submission\<close>

lemma http_fst:
  "fst (http req w) =
     (case answer (net w (steps w) req) of
        Responds resp \<Rightarrow> Inr resp
      | ConnectionFault \<Rightarrow> Inl ClientConnectionError
      | TimeoutFault \<Rightarrow> Inl ServerTimeoutError)"
  by (simp add: http_def Let_def split: answer.splits)

lemma post_tail:
  "snd (case p of
          (Inl e, w1) \<Rightarrow> (Inl e, w1)
        | (Inr resp, w1) \<Rightarrow>
            (case raise_for_status resp of
               Inl e \<Rightarrow> (Inl e, w1)
             | Inr u \<Rightarrow>
                 (case response_json resp of
                    Inl e \<Rightarrow> (Inl e, w1)
                  | Inr result \<Rightarrow> (getitem result ''id'', (w1::world))))) = snd p"
  "fst (case p of
          (Inl e, w1) \<Rightarrow> (Inl e, w1)
        | (Inr resp, w1) \<Rightarrow>
            (case raise_for_status resp of
               Inl e \<Rightarrow> (Inl e, w1)
             | Inr u \<Rightarrow>
                 (case response_json resp of
                    Inl e \<Rightarrow> (Inl e, w1)
                  | Inr result \<Rightarrow> (getitem result ''id'', (w1::world))))) =
     (case fst p of
        Inl e \<Rightarrow> Inl e
      | Inr resp \<Rightarrow>
          (case raise_for_status resp of
             Inl e \<Rightarrow> Inl e
           | Inr u \<Rightarrow> (case response_json resp of Inl e \<Rightarrow> Inl e | Inr result \<Rightarrow> getitem result ''id'')))"
  by (cases p; simp split: sum.splits)+

lemma post_export_request_parts:
  "\<exists>kvs.
     snd (post_export_request self report_id group_id file_format page_names url_filter w)
       = snd (http (Post (ExportTo_url self group_id report_id) (headers self) (JObj kvs))
                (emit (Print (ExportTo_url self group_id report_id)) w)) \<and>
     fst (post_export_request self report_id group_id file_format page_names url_filter w)
       = (case fst (http (Post (ExportTo_url self group_id report_id) (headers self) (JObj kvs))
                      (emit (Print (ExportTo_url self group_id report_id)) w)) of
            Inl e \<Rightarrow> Inl e
          | Inr resp \<Rightarrow>
              (case raise_for_status resp of
                 Inl e \<Rightarrow> Inl e
               | Inr u \<Rightarrow> (case response_json resp of Inl e \<Rightarrow> Inl e | Inr result \<Rightarrow> getitem result ''id''))) \<and>
     kvs = [(''format'', JStr (FileFormat_value file_format))]
             @ (if truthy page_names then [(''pageNames'', page_names)] else [])
             @ (if truthy url_filter then [(''urlFilter'', url_filter)] else [])"
  unfolding post_export_request_def Let_def post_tail
  by (cases "truthy page_names"; cases "truthy url_filter"; simp)

lemma http_snd [simp]:
  "trace (snd (http req w)) = trace w @ [(now w, Http req)]"
  "now w \<le> now (snd (http req w))"
  by (simp_all add: http_def Let_def split: answer.splits)

subsection \<open>One attempt and the loop of attempts\<close>

lemma quietI: "trace w' = trace w @ evs \<Longrightarrow> count_submissions evs = 0 \<Longrightarrow> quiet w w'"
  by (simp add: quiet_def)

lemma quietE: "quiet w w' \<Longrightarrow> \<exists>evs. trace w' = trace w @ evs \<and> count_submissions evs = 0"
  by (auto simp: quiet_def prefix_def)

lemma quiet_refl [simp]: "quiet w w"
  by (simp add: quiet_def)

lemma quiet_trans: "quiet w w' \<Longrightarrow> quiet w' w'' \<Longrightarrow> quiet w w''"
  by (auto dest!: quietE intro!: quietI [where evs = "evs @ evs'" for evs evs'])

lemma quiet_submissions: "quiet w w' \<Longrightarrow> submissions w' = submissions w"
  by (auto dest!: quietE simp: submissions_def)

lemma quiet_prefix: "quiet w w' \<Longrightarrow> prefix (trace w) (trace w')"
  by (simp add: quiet_def)

lemma quiet_pause [simp]: "quiet w (pause d w)"
  by (rule quietI [where evs = "[(now w, Sleep d)]"]) simp_all

lemma quiet_get: "http (Get url hs) w = (r, w') \<Longrightarrow> quiet w w'"
  by (rule quietI [where evs = "[(now w, Http (Get url hs))]"]) (simp_all add: http_trace)

lemma asyncio_sleep_quiet: "asyncio_sleep d w = (r, w') \<Longrightarrow> quiet w w'"
  by (cases d) auto

lemma get_exported_file_quiet:
  "get_exported_file self report_id group_id export w = (r, w') \<Longrightarrow> quiet w w'"
  by (auto simp: get_exported_file_def split: sum.splits json.splits prod.splits dest: quiet_get)

lemma poll_export_request_quiet:
  "poll_export_request self report_id group_id export_id tmo w = (r, w') \<Longrightarrow> quiet w w'"
  unfolding poll_export_request_def Let_def
  by (auto dest!: poll_while_trace intro: quietI poll_trace_no_submission)

lemma try_body_after_poll:
  assumes "post_export_request self report_id group_id file_format page_names url_filter w = (Inr export_id, w1)"
    and "poll_export_request self report_id group_id export_id tmo w1 = (r, w2)"
  shows "quiet w2 (snd (try_body self report_id group_id file_format tmo page_names url_filter w))"
  using assms
  by (auto simp: try_body_def split: sum.splits bool.splits prod.splits if_splits
      dest: asyncio_sleep_quiet get_exported_file_quiet)

lemma try_body_quiet:
  "quiet (snd (post_export_request self report_id group_id file_format page_names url_filter w))
     (snd (try_body self report_id group_id file_format tmo page_names url_filter w))"
proof -
  obtain x w1 where p: "post_export_request self report_id group_id file_format page_names url_filter w = (x, w1)"
    by force
  show ?thesis
  proof (cases x)
    case (Inl e)
    with p show ?thesis by (simp add: try_body_def)
  next
    case (Inr export_id)
    obtain y w2 where q: "poll_export_request self report_id group_id export_id tmo w1 = (y, w2)"
      by force
    from p Inr have p': "post_export_request self report_id group_id file_format page_names url_filter w = (Inr export_id, w1)"
      by simp
    from quiet_trans [OF poll_export_request_quiet [OF q] try_body_after_poll [OF p' q]] p
    show ?thesis by simp
  qed
qed

lemma post_export_request_submissions:
  "submissions (snd (post_export_request self report_id group_id file_format page_names url_filter w))
     = Suc (submissions w)"
  using post_export_request_parts [of self report_id group_id file_format page_names url_filter w]
  by (auto simp: submissions_def)

lemma try_body_submissions:
  "submissions (snd (try_body self report_id group_id file_format tmo page_names url_filter w))
     = Suc (submissions w)"
  using quiet_submissions [OF try_body_quiet] post_export_request_submissions by simp

lemma attempt_round_after_try:
  "quiet (snd (try_body self report_id group_id file_format tmo page_names url_filter w))
     (snd (attempt_round self report_id group_id file_format tmo page_names url_filter attempt w))"
  by (auto simp: attempt_round_def Let_def split: prod.splits flow.splits
      intro: quietI [where evs = "[(t, PrintError n e)]" for t n e])

lemma attempt_round_submissions:
  "submissions (snd (attempt_round self report_id group_id file_format tmo page_names url_filter attempt w))
     = Suc (submissions w)"
  using quiet_submissions [OF attempt_round_after_try] try_body_submissions by simp


lemma for_attempt_Return:
  "attempt < max_retries \<Longrightarrow>
   try_body self report_id group_id file_format tmo page_names url_filter w = (Return r, w') \<Longrightarrow>
   for_attempt self report_id group_id file_format tmo page_names url_filter attempt w = (Inr r, w')"
  by (simp add: for_attempt.simps [of self report_id group_id file_format tmo page_names url_filter attempt w]
      attempt_round_def)


lemma for_attempt_round_Next:
  "attempt < max_retries \<Longrightarrow>
   attempt_round self report_id group_id file_format tmo page_names url_filter attempt w = (Next, w') \<Longrightarrow>
   for_attempt self report_id group_id file_format tmo page_names url_filter attempt w
     = for_attempt self report_id group_id file_format tmo page_names url_filter (Suc attempt) w'"
  by (simp add: for_attempt.simps [of self report_id group_id file_format tmo page_names url_filter attempt w])

lemma for_attempt_done:
  "\<not> attempt < max_retries \<Longrightarrow>
   for_attempt self report_id group_id file_format tmo page_names url_filter attempt w = (Inr None, w)"
  by (simp add: for_attempt.simps [of self report_id group_id file_format tmo page_names url_filter attempt w])

lemma timeout_in_try_body:
  assumes "post_export_request self report_id group_id file_format page_names url_filter w
             = (Inr export_id, w1)"
    and "poll_export_request self report_id group_id export_id polling_timeout_minutes w1
             = (Inr JNull, w2)"
  shows "try_body self report_id group_id file_format polling_timeout_minutes page_names url_filter w
           = (Raise TypeError, w2)"
  using assms by (simp add: try_body_def)

lemma post_export_request_trace:
  "\<exists>kvs. trace (snd (post_export_request self report_id group_id file_format page_names url_filter w))
     = trace w @ [(now w, Print (ExportTo_url self group_id report_id)),
                  (now w, Http (Post (ExportTo_url self group_id report_id) (headers self) (JObj kvs)))]"
  using post_export_request_parts [of self report_id group_id file_format page_names url_filter w]
  by auto

lemma attempt_round_begins:
  "\<exists>kvs evs.
     trace (snd (attempt_round self report_id group_id file_format tmo page_names url_filter attempt w))
       = trace w @ (now w, Print (ExportTo_url self group_id report_id))
           # (now w, Http (Post (ExportTo_url self group_id report_id) (headers self) (JObj kvs)))
           # evs"
proof -
  let ?p = "snd (post_export_request self report_id group_id file_format page_names url_filter w)"
  let ?r = "snd (attempt_round self report_id group_id file_format tmo page_names url_filter attempt w)"
  obtain kvs where k: "trace ?p
     = trace w @ [(now w, Print (ExportTo_url self group_id report_id)),
                  (now w, Http (Post (ExportTo_url self group_id report_id) (headers self) (JObj kvs)))]"
    using post_export_request_trace by blast
  have "quiet ?p ?r"
    using quiet_trans [OF try_body_quiet attempt_round_after_try] .
  then obtain evs where "trace ?r = trace ?p @ evs" by (auto dest: quietE)
  with k show ?thesis by auto
qed

lemma attempt_round_prefix:
  "prefix (trace w)
     (trace (snd (attempt_round self report_id group_id file_format tmo page_names url_filter attempt w)))"
  using attempt_round_begins [of self report_id group_id file_format tmo page_names url_filter attempt w]
  by (auto simp: prefix_def)

lemma for_attempt_prefix:
  "prefix (trace w)
     (trace (snd (for_attempt self report_id group_id file_format tmo page_names url_filter attempt w)))"
proof (induction self report_id group_id file_format tmo page_names url_filter attempt w
    rule: for_attempt.induct)
  case (1 self report_id group_id file_format tmo page_names url_filter attempt w)
  let ?round = "attempt_round self report_id group_id file_format tmo page_names url_filter attempt w"
  note unfold = for_attempt.simps [of self report_id group_id file_format tmo page_names url_filter attempt w]
  show ?case
  proof (cases "attempt < max_retries")
    case False
    then show ?thesis by (simp add: unfold)
  next
    case True
    obtain x w1 where h: "?round = (x, w1)" by force
    have s: "prefix (trace w) (trace w1)"
      using attempt_round_prefix [of w self report_id group_id file_format tmo page_names url_filter attempt] h
      by simp
    show ?thesis
    proof (cases x)
      case Next
      from "1.IH" [OF True h [symmetric] Next] s True h Next show ?thesis
        by (auto simp: unfold intro: prefix_order.trans)
    qed (use s True h in \<open>simp_all add: unfold\<close>)
  qed
qed

lemma for_attempt_after_round:
  assumes "attempt < max_retries"
  shows "prefix
     (trace (snd (attempt_round self report_id group_id file_format tmo page_names url_filter attempt w)))
     (trace (snd (for_attempt self report_id group_id file_format tmo page_names url_filter attempt w)))"
proof -
  obtain x w1 where h: "attempt_round self report_id group_id file_format tmo page_names url_filter attempt w = (x, w1)"
    by force
  show ?thesis
    using assms h for_attempt_prefix [of w1 self report_id group_id file_format tmo page_names url_filter "Suc attempt"]
    by (cases x)
      (simp_all add: for_attempt.simps [of self report_id group_id file_format tmo page_names url_filter attempt w])
qed

lemma for_attempt_begins:
  assumes "attempt < max_retries"
  shows "\<exists>kvs evs.
     trace (snd (for_attempt self report_id group_id file_format tmo page_names url_filter attempt w))
       = trace w @ (now w, Print (ExportTo_url self group_id report_id))
           # (now w, Http (Post (ExportTo_url self group_id report_id) (headers self) (JObj kvs)))
           # evs"
proof -
  from attempt_round_begins [of self report_id group_id file_format tmo page_names url_filter attempt w]
  obtain kvs evs where
    "trace (snd (attempt_round self report_id group_id file_format tmo page_names url_filter attempt w))
       = trace w @ (now w, Print (ExportTo_url self group_id report_id))
           # (now w, Http (Post (ExportTo_url self group_id report_id) (headers self) (JObj kvs)))
           # evs"
    by blast
  moreover from for_attempt_after_round [OF assms, of self report_id group_id file_format tmo page_names url_filter w]
  obtain evs' where
    "trace (snd (for_attempt self report_id group_id file_format tmo page_names url_filter attempt w))
       = trace (snd (attempt_round self report_id group_id file_format tmo page_names url_filter attempt w)) @ evs'"
    by (auto simp: prefix_def)
  ultimately show ?thesis by simp
qed

section \<open>The claims\<close>

text \<open>
  C1 fails on the code. Polling that times out returns \<^verbatim>\<open>None\<close>, the test
  \<^verbatim>\<open>'retryAfter' in export\<close> raises \<^verbatim>\<open>TypeError\<close> on it, and the \<^verbatim>\<open>except\<close> clause swallows
  that in the first two rounds: with a service that never reaches a terminal state and
  a timeout of one minute, the export submits three times, fetches the status at
  seconds 67 and 133, after the first deadline, and ends by raising \<^verbatim>\<open>TypeError\<close>
  instead of returning \<^verbatim>\<open>None\<close>.
\<close>

theorem timeout_raises_TypeError:
  "fst (poll_export_request demo_exporter ''R1'' ''W1'' (JStr ''E1'') 1
          (snd (post_export_request demo_exporter ''R1'' ''W1'' PNG JNull JNull (start_world stuck_net))))
     = Inr JNull \<and>
   fst (export_power_bi_report demo_exporter ''R1'' ''W1'' PNG 1 JNull JNull (start_world stuck_net))
     = Inl TypeError \<and>
   submissions (snd (export_power_bi_report demo_exporter ''R1'' ''W1'' PNG 1 JNull JNull
                       (start_world stuck_net))) = 3 \<and>
   map fst (filter (is_fetch \<circ> snd)
      (trace (snd (export_power_bi_report demo_exporter ''R1'' ''W1'' PNG 1 JNull JNull
                     (start_world stuck_net))))) = [1, 67, 133]"
  by code_simp



text \<open>
  C3. When the first attempt is submitted and its polling ends with a snapshot whose
  status is \<^verbatim>\<open>Failed\<close> and which has no \<^verbatim>\<open>retryAfter\<close>, the export returns \<^verbatim>\<open>None\<close> at once:
  the world it leaves is the one polling left, with exactly one submission more than
  at the start.
\<close>

theorem failed_without_retryAfter_is_final:
  assumes "post_export_request self report_id group_id file_format page_names url_filter w
             = (Inr export_id, w1)"
    and "poll_export_request self report_id group_id export_id polling_timeout_minutes w1
             = (Inr export, w2)"
    and "getitem export ''status'' = Inr (JStr ''Failed'')"
    and "contains ''retryAfter'' export = Inr False"
  shows "export_power_bi_report self report_id group_id file_format polling_timeout_minutes
           page_names url_filter w = (Inr None, w2) \<and>
         submissions w2 = submissions w + 1"
proof -
  have nn: "export \<noteq> JNull" using assms(3) by auto
  have t: "try_body self report_id group_id file_format polling_timeout_minutes page_names url_filter w
             = (Return None, w2)"
    using assms nn by (simp add: try_body_def)
  have "submissions w2 = Suc (submissions w)"
    using try_body_submissions [of self report_id group_id file_format polling_timeout_minutes page_names url_filter w] t
    by simp
  moreover have "export_power_bi_report self report_id group_id file_format polling_timeout_minutes
           page_names url_filter w = (Inr None, w2)"
    unfolding export_power_bi_report_def
    by (rule for_attempt_Return [OF _ t]) (simp add: max_retries_def)
  ultimately show ?thesis by simp
qed

text \<open>An instance: against \<open>failing_net\<close> the export returns \<^verbatim>\<open>None\<close> after one submission.\<close>

theorem failed_without_retryAfter_is_final_witness:
  "fst (post_export_request demo_exporter ''R1'' ''W1'' PNG JNull JNull (start_world failing_net))
     = Inr (JStr ''E1'') \<and>
   fst (poll_export_request demo_exporter ''R1'' ''W1'' (JStr ''E1'') 10
          (snd (post_export_request demo_exporter ''R1'' ''W1'' PNG JNull JNull (start_world failing_net))))
     = Inr (JObj [(''status'', JStr ''Failed'')]) \<and>
   fst (export_power_bi_report demo_exporter ''R1'' ''W1'' PNG 10 JNull JNull (start_world failing_net))
     = Inr None \<and>
   submissions (snd (export_power_bi_report demo_exporter ''R1'' ''W1'' PNG 10 JNull JNull
                       (start_world failing_net))) = 1"
proof -
  let ?w = "start_world failing_net"
  let ?p = "post_export_request demo_exporter ''R1'' ''W1'' PNG JNull JNull ?w"
  let ?q = "poll_export_request demo_exporter ''R1'' ''W1'' (JStr ''E1'') 10 (snd ?p)"
  let ?x = "JObj [(''status'', JStr ''Failed'')]"
  have a: "fst ?p = Inr (JStr ''E1'')" by code_simp
  then have p: "?p = (Inr (JStr ''E1''), snd ?p)" by (simp add: prod_eq_iff)
  have b: "fst ?q = Inr ?x" by code_simp
  then have q: "?q = (Inr ?x, snd ?q)" by (simp add: prod_eq_iff)
  have s: "getitem ?x ''status'' = Inr (JStr ''Failed'')" by simp
  have c: "contains ''retryAfter'' ?x = Inr False" by simp
  have z: "submissions ?w = 0" by (simp add: start_world_def submissions_def)
  from failed_without_retryAfter_is_final [OF p q s c] a b z show ?thesis by simp
qed

text \<open>
  C4. When the \<^verbatim>\<open>try\<close> body of a round raises an error (in submission, in polling or
  later), the error is printed. In the last round it is raised to the caller. In an
  earlier round the loop goes on: the next thing done is a new submission, and if that
  returns a handle, the polling of the new round fetches the status of that handle and
  nothing else.
\<close>

theorem client_error_swallowed_until_last_attempt:
  assumes "attempt < max_retries"
    and "try_body self report_id group_id file_format polling_timeout_minutes page_names url_filter w
           = (Raise e, w1)"
  shows "(attempt = max_retries - 1 \<longrightarrow>
            for_attempt self report_id group_id file_format polling_timeout_minutes page_names
              url_filter attempt w
            = (Inl e, emit (PrintError (attempt + 1) e) w1)) \<and>
         (attempt < max_retries - 1 \<longrightarrow>
            for_attempt self report_id group_id file_format polling_timeout_minutes page_names
              url_filter attempt w
            = for_attempt self report_id group_id file_format polling_timeout_minutes page_names
                url_filter (Suc attempt) (emit (PrintError (attempt + 1) e) w1) \<and>
            (\<exists>kvs evs.
               trace (snd (for_attempt self report_id group_id file_format polling_timeout_minutes
                             page_names url_filter attempt w))
               = trace w1 @ (now w1, PrintError (attempt + 1) e)
                   # (now w1, Print (ExportTo_url self group_id report_id))
                   # (now w1, Http (Post (ExportTo_url self group_id report_id) (headers self) (JObj kvs)))
                   # evs) \<and>
            (\<forall>export_id w3 r w4.
               post_export_request self report_id group_id file_format page_names url_filter
                   (emit (PrintError (attempt + 1) e) w1) = (Inr export_id, w3) \<longrightarrow>
               poll_export_request self report_id group_id export_id polling_timeout_minutes w3
                   = (r, w4) \<longrightarrow>
               (\<exists>evs. trace w4 = trace w3 @ evs \<and>
                      poll_trace (Get (exports_url self group_id report_id export_id) (headers self))
                        (now w3) polling_timeout_minutes evs) \<and>
               prefix (trace w4)
                 (trace (snd (for_attempt self report_id group_id file_format polling_timeout_minutes
                                page_names url_filter attempt w)))))"
proof -
  let ?loop = "for_attempt self report_id group_id file_format polling_timeout_minutes page_names url_filter"
  let ?w2 = "emit (PrintError (attempt + 1) e) w1"
  note unfold = for_attempt.simps [of self report_id group_id file_format polling_timeout_minutes page_names url_filter attempt w]
  have round: "attempt_round self report_id group_id file_format polling_timeout_minutes page_names
                 url_filter attempt w
               = (if attempt = max_retries - 1 then (Raise e, ?w2) else (Next, ?w2))"
    using assms(2) by (simp add: attempt_round_def Let_def)
  have last: "?loop attempt w = (Inl e, ?w2)" if "attempt = max_retries - 1"
    unfolding unfold round using that assms(1) by simp
  have step: "?loop attempt w = ?loop (Suc attempt) ?w2" if "attempt < max_retries - 1"
    unfolding unfold round using that assms(1) by simp
  have again: "\<exists>kvs evs. trace (snd (?loop attempt w))
               = trace w1 @ (now w1, PrintError (attempt + 1) e)
                   # (now w1, Print (ExportTo_url self group_id report_id))
                   # (now w1, Http (Post (ExportTo_url self group_id report_id) (headers self) (JObj kvs)))
                   # evs"
    if less: "attempt < max_retries - 1"
  proof -
    from less have more: "Suc attempt < max_retries" by simp
    from for_attempt_begins [OF more, of self report_id group_id file_format polling_timeout_minutes page_names url_filter ?w2]
    show ?thesis unfolding step [OF less] by simp
  qed
  have handle: "(\<exists>evs. trace w4 = trace w3 @ evs \<and>
                      poll_trace (Get (exports_url self group_id report_id export_id) (headers self))
                        (now w3) polling_timeout_minutes evs) \<and>
               prefix (trace w4) (trace (snd (?loop attempt w)))"
    if less: "attempt < max_retries - 1"
      and p: "post_export_request self report_id group_id file_format page_names url_filter ?w2
                = (Inr export_id, w3)"
      and q: "poll_export_request self report_id group_id export_id polling_timeout_minutes w3 = (r, w4)"
    for export_id w3 r w4
  proof -
    from less have more: "Suc attempt < max_retries" by simp
    from q have "\<exists>evs. trace w4 = trace w3 @ evs \<and>
                      poll_trace (Get (exports_url self group_id report_id export_id) (headers self))
                        (now w3) polling_timeout_minutes evs"
      unfolding poll_export_request_def Let_def by (blast dest: poll_while_trace)
    moreover have "prefix (trace w4) (trace (snd (?loop (Suc attempt) ?w2)))"
      using quiet_prefix [OF quiet_trans [OF try_body_after_poll [OF p q] attempt_round_after_try]]
        for_attempt_after_round [OF more]
      by (rule prefix_order.trans)
    ultimately show ?thesis unfolding step [OF less] by simp
  qed
  from last step again handle show ?thesis by blast
qed

text \<open>Two instances: against \<open>flaky_net\<close> the first round fails to connect, the second
  succeeds, and the export returns the file after two submissions; against \<open>dead_net\<close>
  the last round raises the connection error.\<close>

theorem client_error_swallowed_until_last_attempt_witness:
  "fst (try_body demo_exporter ''R1'' ''W1'' PNG 10 JNull JNull (start_world flaky_net))
     = Raise ClientConnectionError \<and>
   for_attempt demo_exporter ''R1'' ''W1'' PNG 10 JNull JNull 0 (start_world flaky_net)
     = for_attempt demo_exporter ''R1'' ''W1'' PNG 10 JNull JNull 1
         (emit (PrintError 1 ClientConnectionError)
            (snd (try_body demo_exporter ''R1'' ''W1'' PNG 10 JNull JNull (start_world flaky_net)))) \<and>
   fst (export_power_bi_report demo_exporter ''R1'' ''W1'' PNG 10 JNull JNull (start_world flaky_net))
     = Inr (Some \<lparr>content = ''PNG-bytes'', filename = ''Sales.png''\<rparr>) \<and>
   submissions (snd (export_power_bi_report demo_exporter ''R1'' ''W1'' PNG 10 JNull JNull
                       (start_world flaky_net))) = 2 \<and>
   fst (try_body demo_exporter ''R1'' ''W1'' PNG 10 JNull JNull (start_world dead_net))
     = Raise ClientConnectionError \<and>
   fst (for_attempt demo_exporter ''R1'' ''W1'' PNG 10 JNull JNull 2 (start_world dead_net))
     = Inl ClientConnectionError"
proof -
  let ?t = "try_body demo_exporter ''R1'' ''W1'' PNG 10 JNull JNull (start_world flaky_net)"
  let ?d = "try_body demo_exporter ''R1'' ''W1'' PNG 10 JNull JNull (start_world dead_net)"
  have a: "fst ?t = Raise ClientConnectionError" by code_simp
  then have t: "?t = (Raise ClientConnectionError, snd ?t)" by (simp add: prod_eq_iff)
  have b: "fst ?d = Raise ClientConnectionError" by code_simp
  then have d: "?d = (Raise ClientConnectionError, snd ?d)" by (simp add: prod_eq_iff)
  have m0: "(0::nat) < max_retries" and m2: "(2::nat) < max_retries"
    by (simp_all add: max_retries_def)
  have r: "fst (export_power_bi_report demo_exporter ''R1'' ''W1'' PNG 10 JNull JNull (start_world flaky_net))
     = Inr (Some \<lparr>content = ''PNG-bytes'', filename = ''Sales.png''\<rparr>)"
    by code_simp
  have s: "submissions (snd (export_power_bi_report demo_exporter ''R1'' ''W1'' PNG 10 JNull JNull
                       (start_world flaky_net))) = 2"
    by code_simp
  from client_error_swallowed_until_last_attempt [OF m0 t]
  have first: "for_attempt demo_exporter ''R1'' ''W1'' PNG 10 JNull JNull 0 (start_world flaky_net)
     = for_attempt demo_exporter ''R1'' ''W1'' PNG 10 JNull JNull 1
         (emit (PrintError 1 ClientConnectionError) (snd ?t))"
    by (simp add: max_retries_def)
  from client_error_swallowed_until_last_attempt [OF m2 d]
  have final: "fst (for_attempt demo_exporter ''R1'' ''W1'' PNG 10 JNull JNull 2 (start_world dead_net))
     = Inl ClientConnectionError"
    by (simp add: max_retries_def)
  from a b r s first final show ?thesis by simp
qed

text \<open>
  C5. When an attempt is submitted, its polling ends with a snapshot whose status is
  \<^verbatim>\<open>Succeeded\<close> and whose \<^verbatim>\<open>resourceLocation\<close>, \<^verbatim>\<open>reportName\<close> and \<^verbatim>\<open>resourceFileExtension\<close>
  are strings, and the GET of that location is answered with a status below 400, then
  the export returns the bytes of that answer under the file name
  \<^verbatim>\<open>reportName + "." + resourceFileExtension\<close>. Between the snapshot and the return it
  does exactly one thing, that GET; the whole attempt is one submission, the status
  fetches of the polling loop and that GET.
\<close>

theorem succeeded_export_fetches_once:
  assumes "attempt < max_retries"
    and "post_export_request self report_id group_id file_format page_names url_filter w
           = (Inr export_id, w1)"
    and "poll_export_request self report_id group_id export_id polling_timeout_minutes w1
           = (Inr export, w2)"
    and "getitem export ''status'' = Inr (JStr ''Succeeded'')"
    and "getitem export ''resourceLocation'' = Inr (JStr location)"
    and "getitem export ''reportName'' = Inr (JStr reportName)"
    and "getitem export ''resourceFileExtension'' = Inr (JStr resourceFileExtension)"
    and "http (Get location (headers self)) w2 = (Inr resp, w3)"
    and "status resp < 400"
  shows "for_attempt self report_id group_id file_format polling_timeout_minutes page_names
           url_filter attempt w
           = (Inr (Some \<lparr>content = body resp,
                          filename = reportName @ ''.'' @ resourceFileExtension\<rparr>), w3) \<and>
         trace w3 = trace w2 @ [(now w2, Http (Get location (headers self)))] \<and>
         (\<exists>kvs evs.
            trace w3 = trace w
              @ (now w, Print (ExportTo_url self group_id report_id))
              # (now w, Http (Post (ExportTo_url self group_id report_id) (headers self) (JObj kvs)))
              # evs @ [(now w2, Http (Get location (headers self)))] \<and>
            poll_trace (Get (exports_url self group_id report_id export_id) (headers self)) (now w1)
              polling_timeout_minutes evs) \<and>
         (attempt = 0 \<longrightarrow>
            export_power_bi_report self report_id group_id file_format polling_timeout_minutes
              page_names url_filter w
            = (Inr (Some \<lparr>content = body resp,
                           filename = reportName @ ''.'' @ resourceFileExtension\<rparr>), w3))"
proof -
  let ?file = "\<lparr>content = body resp, filename = reportName @ ''.'' @ resourceFileExtension\<rparr>"
  have nn: "export \<noteq> JNull" using assms(4) by auto
  have g: "get_exported_file self report_id group_id export w2 = (Inr ?file, w3)"
    using assms(5-9) by (simp add: get_exported_file_def raise_for_status_def)
  have t: "try_body self report_id group_id file_format polling_timeout_minutes page_names url_filter w
             = (Return (Some ?file), w3)"
    using assms(2-4) nn g by (simp add: try_body_def)
  have f: "for_attempt self report_id group_id file_format polling_timeout_minutes page_names
           url_filter attempt w = (Inr (Some ?file), w3)"
    by (rule for_attempt_Return [OF assms(1) t])
  have tr: "trace w3 = trace w2 @ [(now w2, Http (Get location (headers self)))]"
    using assms(8) by (rule http_trace)
  obtain kvs where sub: "trace w1 = trace w @ [(now w, Print (ExportTo_url self group_id report_id)),
       (now w, Http (Post (ExportTo_url self group_id report_id) (headers self) (JObj kvs)))]"
    using post_export_request_trace [of self report_id group_id file_format page_names url_filter w]
      assms(2)
    by auto
  obtain evs where pol: "trace w2 = trace w1 @ evs"
      "poll_trace (Get (exports_url self group_id report_id export_id) (headers self)) (now w1)
         polling_timeout_minutes evs"
    using assms(3) unfolding poll_export_request_def Let_def by (blast dest: poll_while_trace)
  have whole: "\<exists>kvs evs.
            trace w3 = trace w
              @ (now w, Print (ExportTo_url self group_id report_id))
              # (now w, Http (Post (ExportTo_url self group_id report_id) (headers self) (JObj kvs)))
              # evs @ [(now w2, Http (Get location (headers self)))] \<and>
            poll_trace (Get (exports_url self group_id report_id export_id) (headers self)) (now w1)
              polling_timeout_minutes evs"
    using tr sub pol by auto
  have top: "attempt = 0 \<longrightarrow>
            export_power_bi_report self report_id group_id file_format polling_timeout_minutes
              page_names url_filter w = (Inr (Some ?file), w3)"
    unfolding export_power_bi_report_def using f by blast
  from f tr whole top show ?thesis by blast
qed

text \<open>An instance, the scenario of the specification: the export returns \<^verbatim>\<open>Sales.png\<close>.\<close>

theorem succeeded_export_fetches_once_witness:
  "fst (post_export_request demo_exporter ''R1'' ''W1'' PNG JNull JNull (start_world sales_net))
     = Inr (JStr ''E1'') \<and>
   fst (poll_export_request demo_exporter ''R1'' ''W1'' (JStr ''E1'') 10
          (snd (post_export_request demo_exporter ''R1'' ''W1'' PNG JNull JNull (start_world sales_net))))
     = Inr sales_snapshot \<and>
   fst (export_power_bi_report demo_exporter ''R1'' ''W1'' PNG 10 JNull JNull (start_world sales_net))
     = Inr (Some \<lparr>content = ''PNG-bytes'', filename = ''Sales.png''\<rparr>)"
proof -
  let ?w = "start_world sales_net"
  let ?p = "post_export_request demo_exporter ''R1'' ''W1'' PNG JNull JNull ?w"
  let ?q = "poll_export_request demo_exporter ''R1'' ''W1'' (JStr ''E1'') 10 (snd ?p)"
  let ?h = "http (Get ''https://files.example/L'' (headers demo_exporter)) (snd ?q)"
  have m: "(0::nat) < max_retries" by (simp add: max_retries_def)
  have a: "fst ?p = Inr (JStr ''E1'')" by code_simp
  then have p: "?p = (Inr (JStr ''E1''), snd ?p)" by (simp add: prod_eq_iff)
  have b: "fst ?q = Inr sales_snapshot" by code_simp
  then have q: "?q = (Inr sales_snapshot, snd ?q)" by (simp add: prod_eq_iff)
  have s1: "getitem sales_snapshot ''status'' = Inr (JStr ''Succeeded'')"
    and s2: "getitem sales_snapshot ''resourceLocation'' = Inr (JStr ''https://files.example/L'')"
    and s3: "getitem sales_snapshot ''reportName'' = Inr (JStr ''Sales'')"
    and s4: "getitem sales_snapshot ''resourceFileExtension'' = Inr (JStr ''png'')"
    by (simp_all add: sales_snapshot_def)
  have c: "fst ?h = Inr sales_file" by code_simp
  then have h: "?h = (Inr sales_file, snd ?h)" by (simp add: prod_eq_iff)
  have st: "status sales_file < 400" by (simp add: sales_file_def)
  from succeeded_export_fetches_once [OF m p q s1 s2 s3 s4 h st] a b show ?thesis
    by (simp add: sales_file_def)
qed

text \<open>
  C6. The polling loop tests the elapsed time before every status fetch and returns
  \<^verbatim>\<open>None\<close> once the timeout has passed. A fetch whose status is \<^verbatim>\<open>Succeeded\<close> or \<^verbatim>\<open>Failed\<close>
  ends the loop with that snapshot; after any other status the loop sleeps 5 seconds
  and goes round again. So all that one call of \<^verbatim>\<open>poll_export_request\<close> does is a run of
  status fetches, each begun before the deadline, with a 5-second sleep between one
  fetch and the next.
\<close>

theorem poll_iteration:
  "(\<not> now w - start_time < polling_timeout_minutes * 60 \<longrightarrow>
      poll_while self url start_time polling_timeout_minutes w = (Inr JNull, w)) \<and>
   (now w - start_time < polling_timeout_minutes * 60 \<longrightarrow>
      http (Get url (headers self)) w = (Inr resp, w1) \<longrightarrow>
      raise_for_status resp = Inr () \<longrightarrow>
      response_json resp = Inr result \<longrightarrow>
      getitem result ''status'' = Inr st \<longrightarrow>
      (if st = JStr ''Succeeded'' \<or> st = JStr ''Failed''
       then poll_while self url start_time polling_timeout_minutes w = (Inr result, w1)
       else poll_while self url start_time polling_timeout_minutes w
              = poll_while self url start_time polling_timeout_minutes (pause 5 w1) \<and>
            trace (pause 5 w1) = trace w @ [(now w, Http (Get url (headers self))), (now w1, Sleep 5)] \<and>
            now w1 + 5 \<le> now (pause 5 w1))) \<and>
   (\<exists>evs. trace (snd (poll_export_request self report_id group_id export_id polling_timeout_minutes w))
            = trace w @ evs \<and>
          poll_trace (Get (exports_url self group_id report_id export_id) (headers self)) (now w)
            polling_timeout_minutes evs)"
proof (intro conjI impI)
  assume "\<not> now w - start_time < polling_timeout_minutes * 60"
  then show "poll_while self url start_time polling_timeout_minutes w = (Inr JNull, w)"
    by (simp add: poll_while.simps [of self url start_time polling_timeout_minutes w])
next
  assume a: "now w - start_time < polling_timeout_minutes * 60"
    "http (Get url (headers self)) w = (Inr resp, w1)"
    "raise_for_status resp = Inr ()" "response_json resp = Inr result"
    "getitem result ''status'' = Inr st"
  have tr: "trace w1 = trace w @ [(now w, Http (Get url (headers self)))]"
    using a(2) by (rule http_trace)
  show "if st = JStr ''Succeeded'' \<or> st = JStr ''Failed''
       then poll_while self url start_time polling_timeout_minutes w = (Inr result, w1)
       else poll_while self url start_time polling_timeout_minutes w
              = poll_while self url start_time polling_timeout_minutes (pause 5 w1) \<and>
            trace (pause 5 w1) = trace w @ [(now w, Http (Get url (headers self))), (now w1, Sleep 5)] \<and>
            now w1 + 5 \<le> now (pause 5 w1)"
    using a tr by (simp add: poll_while.simps [of self url start_time polling_timeout_minutes w])
next
  obtain r w' where p: "poll_while self (exports_url self group_id report_id export_id) (now w)
      polling_timeout_minutes w = (r, w')"
    by force
  from poll_while_trace [OF p] p
  show "\<exists>evs. trace (snd (poll_export_request self report_id group_id export_id polling_timeout_minutes w))
            = trace w @ evs \<and>
          poll_trace (Get (exports_url self group_id report_id export_id) (headers self)) (now w)
            polling_timeout_minutes evs"
    by (auto simp: poll_export_request_def Let_def)
qed

text \<open>An instance: the first status that \<open>sales_net\<close> serves is \<^verbatim>\<open>Running\<close>, so the loop sleeps
  5 seconds and goes round again.\<close>

theorem poll_iteration_witness:
  "now (start_world sales_net) - 0 < 10 * 60 \<and>
   fst (http (Get ''u'' (headers demo_exporter)) (start_world sales_net)) = Inr running_response \<and>
   raise_for_status running_response = Inr () \<and>
   response_json running_response = Inr (JObj [(''status'', JStr ''Running'')]) \<and>
   getitem (JObj [(''status'', JStr ''Running'')]) ''status'' = Inr (JStr ''Running'') \<and>
   poll_while demo_exporter ''u'' 0 10 (start_world sales_net)
     = poll_while demo_exporter ''u'' 0 10
         (pause 5 (snd (http (Get ''u'' (headers demo_exporter)) (start_world sales_net)))) \<and>
   now (snd (http (Get ''u'' (headers demo_exporter)) (start_world sales_net))) + 5
     \<le> now (pause 5 (snd (http (Get ''u'' (headers demo_exporter)) (start_world sales_net))))"
proof -
  let ?w = "start_world sales_net"
  let ?h = "http (Get ''u'' (headers demo_exporter)) ?w"
  have t: "now ?w - 0 < 10 * 60" by (simp add: start_world_def)
  have f: "fst ?h = Inr running_response" by code_simp
  then have h: "?h = (Inr running_response, snd ?h)" by (simp add: prod_eq_iff)
  have r: "raise_for_status running_response = Inr ()" by code_simp
  have j: "response_json running_response = Inr (JObj [(''status'', JStr ''Running'')])" by code_simp
  have g: "getitem (JObj [(''status'', JStr ''Running'')]) ''status'' = Inr (JStr ''Running'')" by simp
  from poll_iteration [of ?w 0 10 demo_exporter "''u''" running_response "snd ?h"
      "JObj [(''status'', JStr ''Running'')]" "JStr ''Running''"] t h r j g
  show ?thesis using f by simp
qed

text \<open>
  C7. When each of the three rounds is used up (its \<^verbatim>\<open>try\<close> reached \<^verbatim>\<open>continue\<close> or its
  end, or raised an error that the \<^verbatim>\<open>except\<close> clause swallowed), the export returns
  \<^verbatim>\<open>None\<close>, which is no raised error, after three submissions.
\<close>

theorem exhausted_attempts_return_None:
  assumes "attempt_round self report_id group_id file_format polling_timeout_minutes page_names
             url_filter 0 w = (Next, w1)"
    and "attempt_round self report_id group_id file_format polling_timeout_minutes page_names
             url_filter 1 w1 = (Next, w2)"
    and "attempt_round self report_id group_id file_format polling_timeout_minutes page_names
             url_filter 2 w2 = (Next, w3)"
  shows "export_power_bi_report self report_id group_id file_format polling_timeout_minutes
           page_names url_filter w = (Inr None, w3) \<and>
         (\<forall>e. fst (export_power_bi_report self report_id group_id file_format
                    polling_timeout_minutes page_names url_filter w) \<noteq> Inl e) \<and>
         submissions w3 = submissions w + 3"
proof -
  let ?loop = "for_attempt self report_id group_id file_format polling_timeout_minutes page_names url_filter"
  have a: "?loop 0 w = ?loop 1 w1"
    using for_attempt_round_Next [where attempt = 0, OF _ assms(1)] by (simp add: max_retries_def)
  have b: "?loop 1 w1 = ?loop 2 w2"
    using for_attempt_round_Next [where attempt = 1, OF _ assms(2)]
    by (simp add: max_retries_def numeral_2_eq_2)
  have c: "?loop 2 w2 = ?loop 3 w3"
    using for_attempt_round_Next [where attempt = 2, OF _ assms(3)]
    by (simp add: max_retries_def numeral_2_eq_2 numeral_3_eq_3)
  have d: "?loop 3 w3 = (Inr None, w3)"
    by (rule for_attempt_done) (simp add: max_retries_def)
  have r: "export_power_bi_report self report_id group_id file_format polling_timeout_minutes
           page_names url_filter w = (Inr None, w3)"
    unfolding export_power_bi_report_def using a b c d by simp
  have "submissions w1 = Suc (submissions w)" "submissions w2 = Suc (submissions w1)"
    "submissions w3 = Suc (submissions w2)"
    using assms
      attempt_round_submissions [of self report_id group_id file_format polling_timeout_minutes page_names url_filter 0 w]
      attempt_round_submissions [of self report_id group_id file_format polling_timeout_minutes page_names url_filter 1 w1]
      attempt_round_submissions [of self report_id group_id file_format polling_timeout_minutes page_names url_filter 2 w2]
    by simp_all
  with r show ?thesis by simp
qed

text \<open>An instance: against \<open>retry_net\<close> all three rounds end in \<^verbatim>\<open>continue\<close>.\<close>

theorem exhausted_attempts_return_None_witness:
  "fst (attempt_round demo_exporter ''R1'' ''W1'' PNG 10 JNull JNull 0 (start_world retry_net)) = Next \<and>
   fst (export_power_bi_report demo_exporter ''R1'' ''W1'' PNG 10 JNull JNull (start_world retry_net))
     = Inr None \<and>
   submissions (snd (export_power_bi_report demo_exporter ''R1'' ''W1'' PNG 10 JNull JNull
                       (start_world retry_net))) = 3"
proof -
  let ?w = "start_world retry_net"
  let ?r0 = "attempt_round demo_exporter ''R1'' ''W1'' PNG 10 JNull JNull 0 ?w"
  let ?r1 = "attempt_round demo_exporter ''R1'' ''W1'' PNG 10 JNull JNull 1 (snd ?r0)"
  let ?r2 = "attempt_round demo_exporter ''R1'' ''W1'' PNG 10 JNull JNull 2 (snd ?r1)"
  have a: "fst ?r0 = Next" by code_simp
  then have r0: "?r0 = (Next, snd ?r0)" by (simp add: prod_eq_iff)
  have "fst ?r1 = Next" by code_simp
  then have r1: "?r1 = (Next, snd ?r1)" by (simp add: prod_eq_iff)
  have "fst ?r2 = Next" by code_simp
  then have r2: "?r2 = (Next, snd ?r2)" by (simp add: prod_eq_iff)
  have z: "submissions ?w = 0" by (simp add: start_world_def submissions_def)
  from exhausted_attempts_return_None [OF r0 r1 r2] a z show ?thesis by simp
qed

text \<open>
  C8, as the code has it. A submission sends one POST to the ExportTo endpoint. A
  connection fault or a timeout of the client library is raised as it is. A response
  with a status of 400 or more raises the client library's one response error, which
  carries the status and not the body, whether the status is 401, 403 or any other. A
  response with a status below 400 (not only 2xx) is read as JSON and its \<^verbatim>\<open>id\<close> is
  returned; a body that is not JSON, is not a dictionary or has no \<^verbatim>\<open>id\<close> raises.
\<close>

theorem submit_outcome:
  "\<exists>data.
     trace (snd (post_export_request self report_id group_id file_format page_names url_filter w))
       = trace w @ [(now w, Print (ExportTo_url self group_id report_id)),
                    (now w, Http (Post (ExportTo_url self group_id report_id) (headers self) data))] \<and>
     fst (post_export_request self report_id group_id file_format page_names url_filter w) =
       (case answer (net w (steps w) (Post (ExportTo_url self group_id report_id) (headers self) data)) of
          ConnectionFault \<Rightarrow> Inl ClientConnectionError
        | TimeoutFault \<Rightarrow> Inl ServerTimeoutError
        | Responds resp \<Rightarrow>
            if 400 \<le> status resp then Inl (ClientResponseError (status resp))
            else (case json_body resp of
                    None \<Rightarrow> Inl ContentTypeError
                  | Some result \<Rightarrow> getitem result ''id''))"
proof -
  from post_export_request_parts [of self report_id group_id file_format page_names url_filter w]
  obtain kvs where
    s: "snd (post_export_request self report_id group_id file_format page_names url_filter w)
       = snd (http (Post (ExportTo_url self group_id report_id) (headers self) (JObj kvs))
                (emit (Print (ExportTo_url self group_id report_id)) w))"
    and f: "fst (post_export_request self report_id group_id file_format page_names url_filter w)
       = (case fst (http (Post (ExportTo_url self group_id report_id) (headers self) (JObj kvs))
                      (emit (Print (ExportTo_url self group_id report_id)) w)) of
            Inl e \<Rightarrow> Inl e
          | Inr resp \<Rightarrow>
              (case raise_for_status resp of
                 Inl e \<Rightarrow> Inl e
               | Inr u \<Rightarrow> (case response_json resp of Inl e \<Rightarrow> Inl e | Inr result \<Rightarrow> getitem result ''id'')))"
    by blast
  show ?thesis
    by (rule exI [of _ "JObj kvs"])
      (simp add: s f http_fst raise_for_status_def response_json_def split: answer.splits option.splits)
qed

text \<open>
  C8 as stated fails: a response with status 300 is not 2xx, and the submission returns
  its \<^verbatim>\<open>id\<close> instead of failing; statuses 401 and 500 raise the same kind of error.
\<close>

theorem submit_accepts_status_300:
  "fst (post_export_request demo_exporter ''R1'' ''W1'' PNG JNull JNull (start_world (status_net 300)))
     = Inr (JStr ''E1'') \<and>
   fst (post_export_request demo_exporter ''R1'' ''W1'' PNG JNull JNull (start_world (status_net 401)))
     = Inl (ClientResponseError 401) \<and>
   fst (post_export_request demo_exporter ''R1'' ''W1'' PNG JNull JNull (start_world (status_net 500)))
     = Inl (ClientResponseError 500)"
  by code_simp

text \<open>
  C9. Whatever \<^verbatim>\<open>poll_export_request\<close> returns that is not \<^verbatim>\<open>None\<close> is a dictionary whose
  \<^verbatim>\<open>status\<close> is exactly \<^verbatim>\<open>"Succeeded"\<close> or \<^verbatim>\<open>"Failed"\<close>: the attempt loop sees a
  terminal snapshot or \<^verbatim>\<open>None\<close>, nothing else.
\<close>

theorem poll_returns_terminal_or_None:
  assumes "poll_export_request self report_id group_id export_id polling_timeout_minutes w
             = (Inr export, w')"
    and "export \<noteq> JNull"
  shows "getitem export ''status'' = Inr (JStr ''Succeeded'') \<or>
         getitem export ''status'' = Inr (JStr ''Failed'')"
  using assms poll_while_terminal unfolding poll_export_request_def Let_def by blast

text \<open>An instance: polling against \<open>sales_net\<close> returns the Succeeded snapshot.\<close>

theorem poll_returns_terminal_or_None_witness:
  "fst (poll_export_request demo_exporter ''R1'' ''W1'' (JStr ''E1'') 10 (start_world sales_net))
     = Inr sales_snapshot \<and>
   sales_snapshot \<noteq> JNull \<and>
   getitem sales_snapshot ''status'' = Inr (JStr ''Succeeded'')"
proof -
  let ?p = "poll_export_request demo_exporter ''R1'' ''W1'' (JStr ''E1'') 10 (start_world sales_net)"
  have a: "fst ?p = Inr sales_snapshot" by code_simp
  then have b: "?p = (Inr sales_snapshot, snd ?p)" by (simp add: prod_eq_iff)
  have c: "sales_snapshot \<noteq> JNull" by (simp add: sales_snapshot_def)
  from poll_returns_terminal_or_None [OF b c] a c show ?thesis
    by (simp add: sales_snapshot_def)
qed

text \<open>
  C10. The body of every submission holds the key \<^verbatim>\<open>format\<close>; it holds \<^verbatim>\<open>pageNames\<close>
  exactly when the argument \<^verbatim>\<open>page_names\<close> is truthy and \<^verbatim>\<open>urlFilter\<close> exactly when
  \<^verbatim>\<open>url_filter\<close> is, each with the argument as its value. An empty list of page names
  is sent as no list at all: the call does what it does for \<^verbatim>\<open>None\<close>.
\<close>

theorem request_body_keys:
  "\<exists>kvs.
     trace (snd (post_export_request self report_id group_id file_format page_names url_filter w))
       = trace w @ [(now w, Print (ExportTo_url self group_id report_id)),
                    (now w, Http (Post (ExportTo_url self group_id report_id) (headers self) (JObj kvs)))] \<and>
     getitem (JObj kvs) ''format'' = Inr (JStr (FileFormat_value file_format)) \<and>
     contains ''pageNames'' (JObj kvs) = Inr (truthy page_names) \<and>
     contains ''urlFilter'' (JObj kvs) = Inr (truthy url_filter) \<and>
     (if truthy page_names then getitem (JObj kvs) ''pageNames'' = Inr page_names
      else getitem (JObj kvs) ''pageNames'' = Inl (KeyError ''pageNames'')) \<and>
     (if truthy url_filter then getitem (JObj kvs) ''urlFilter'' = Inr url_filter
      else getitem (JObj kvs) ''urlFilter'' = Inl (KeyError ''urlFilter'')) \<and>
     post_export_request self report_id group_id file_format (JArr []) url_filter w
       = post_export_request self report_id group_id file_format JNull url_filter w"
proof -
  from post_export_request_parts [of self report_id group_id file_format page_names url_filter w]
  obtain kvs where
    s: "snd (post_export_request self report_id group_id file_format page_names url_filter w)
       = snd (http (Post (ExportTo_url self group_id report_id) (headers self) (JObj kvs))
                (emit (Print (ExportTo_url self group_id report_id)) w))"
    and k: "kvs = [(''format'', JStr (FileFormat_value file_format))]
             @ (if truthy page_names then [(''pageNames'', page_names)] else [])
             @ (if truthy url_filter then [(''urlFilter'', url_filter)] else [])"
    by blast
  have same: "post_export_request self report_id group_id file_format (JArr []) url_filter w
       = post_export_request self report_id group_id file_format JNull url_filter w"
    by (simp add: post_export_request_def)
  show ?thesis
    by (rule exI [of _ kvs]) (simp add: s same, simp add: k)
qed

end
